theory Spec2Isabelle
  imports Complex_Main
begin

section \<open>Strings\<close>

text \<open>
  A Python \<open>str\<close> is a sequence of Unicode code points, and the program tests code points
  far above 255 (the CJK block, the keywords of the file-name heuristic). It is modelled
  as a list of code points; \<open>len\<close> is \<open>length\<close>. ASCII literals of the source are written
  with \<open>str\<close>.
\<close>

type_synonym pystr = "nat list"

definition str :: "string \<Rightarrow> pystr" where
  "str s = map of_char s"

text \<open>\<open>a in b\<close> on two strings: \<open>a\<close> occurs in \<open>b\<close> as a contiguous substring.\<close>

fun startswith :: "pystr \<Rightarrow> pystr \<Rightarrow> bool" where
  "startswith s [] = True"
| "startswith [] (p # ps) = False"
| "startswith (c # s) (p # ps) = (c = p \<and> startswith s ps)"

fun str_in :: "pystr \<Rightarrow> pystr \<Rightarrow> bool" where
  "str_in a [] = (a = [])"
| "str_in a (c # s) = (startswith (c # s) a \<or> str_in a s)"

text \<open>Comparison of two strings (\<open>a <= b\<close>): lexicographic on code points.\<close>

fun str_le :: "pystr \<Rightarrow> pystr \<Rightarrow> bool" where
  "str_le [] b = True"
| "str_le (x # a) [] = False"
| "str_le (x # a) (y # b) = (x < y \<or> (x = y \<and> str_le a b))"

section \<open>Markup stripping\<close>

text \<open>
  \<open>remove_image_string\<close> substitutes the empty string for every match of a regular
  expression with three alternatives:
  \<^item> \<^verbatim>\<open>!\[(.*?)\]\(.*?\)\{width=".*?" height=".*?"\}\<close>, an image with its size;
  \<^item> \<^verbatim>\<open>!\[.*?\]\(.*?\)\<close>, a plain image;
  \<^item> \<^verbatim>\<open>\[.*?\]\{.*?\}\<close>, a bracket followed by a brace.

  Each alternative is a sequence of literal characters and lazy wildcards \<^verbatim>\<open>.*?\<close>.
  The matcher is the backtracking one of \<open>re\<close>: a lazy wildcard first tries to match
  nothing, and takes one more character (any but a newline) each time the rest of the
  pattern fails. \<open>match_here p s\<close> is the rest of \<open>s\<close> behind the match of \<open>p\<close> at the
  start of \<open>s\<close>, if there is one.
\<close>

datatype item = Lit nat | LazyAny

definition lits :: "string \<Rightarrow> item list" where
  "lits s = map Lit (str s)"

fun match_here :: "item list \<Rightarrow> pystr \<Rightarrow> pystr option" where
  "match_here [] s = Some s"
| "match_here (Lit c # p) [] = None"
| "match_here (Lit c # p) (x # s) = (if x = c then match_here p s else None)"
| "match_here (LazyAny # p) [] = match_here p []"
| "match_here (LazyAny # p) (x # s) =
     (case match_here p (x # s) of
        Some rest \<Rightarrow> Some rest
      | None \<Rightarrow> if x = 10 then None else match_here (LazyAny # p) s)"

text \<open>The three alternatives; 34 is the double quote.\<close>

definition image_sized :: "item list" where
  "image_sized =
     lits ''!['' @ [LazyAny] @ lits '']('' @ [LazyAny] @ lits ''){width='' @ [Lit 34, LazyAny, Lit 34]
       @ lits '' height='' @ [Lit 34, LazyAny, Lit 34] @ lits ''}''"

definition image_plain :: "item list" where
  "image_plain = lits ''!['' @ [LazyAny] @ lits '']('' @ [LazyAny] @ lits '')''"

definition bracket_brace :: "item list" where
  "bracket_brace = lits ''['' @ [LazyAny] @ lits '']{'' @ [LazyAny] @ lits ''}''"

text \<open>Alternatives are tried in the order of the pattern; the first that matches wins.\<close>

definition match_image :: "pystr \<Rightarrow> pystr option" where
  "match_image s =
     (case match_here image_sized s of
        Some rest \<Rightarrow> Some rest
      | None \<Rightarrow> (case match_here image_plain s of
                   Some rest \<Rightarrow> Some rest
                 | None \<Rightarrow> match_here bracket_brace s))"

lemma str_simps:
  "str [] = []" "str (c # s) = of_char c # str s"
  by (simp_all add: str_def)

lemma match_here_length: "match_here p s = Some rest \<Longrightarrow> length rest \<le> length s"
  by (induction p s rule: match_here.induct) (auto split: if_splits option.splits)

lemma match_here_Lit: "match_here (Lit c # p) s = Some rest \<Longrightarrow> length rest < length s"
  by (cases s) (auto split: if_splits dest: match_here_length)

lemma match_image_length: "match_image s = Some rest \<Longrightarrow> length rest < length s"
  unfolding match_image_def image_sized_def image_plain_def bracket_brace_def lits_def
    str_simps list.map append.simps
  by (auto split: option.splits dest: match_here_Lit)

text \<open>
  \<open>re.sub\<close> scans from the left: where the pattern matches, the match is dropped and the
  scan goes on behind it; elsewhere the character is kept. Every alternative starts with
  a literal, so a match is never empty and the scan always advances.
\<close>

function remove_image_string :: "pystr \<Rightarrow> pystr" where
  "remove_image_string [] = []"
| "remove_image_string (c # s) =
     (case match_image (c # s) of
        Some rest \<Rightarrow> remove_image_string rest
      | None \<Rightarrow> c # remove_image_string s)"
  by pat_completeness auto
termination
  by (relation "measure length") (auto dest: match_image_length)

section \<open>Noise characters\<close>

text \<open>
  \<open>remove_noise_character\<close> substitutes the empty string for every match of the pattern
  \<^verbatim>\<open>[>*|image|data|media|png]\<close>. The pattern is one character class: it matches one
  character that occurs between the brackets. \<open>re.sub\<close> scans from the left, drops a
  character the class matches and keeps any other.
\<close>

definition noise_class :: pystr where
  "noise_class = str ''>*|image|data|media|png''"

fun sub_class :: "pystr \<Rightarrow> pystr \<Rightarrow> pystr" where
  "sub_class cls [] = []"
| "sub_class cls (c # s) = (if c \<in> set cls then sub_class cls s else c # sub_class cls s)"

definition remove_noise_character :: "pystr \<Rightarrow> pystr" where
  "remove_noise_character input_string = sub_class noise_class input_string"

text \<open>The specification's wording: the set it lists, with the letter \<open>c\<close>.\<close>

definition remove_noise_character_spec :: "pystr \<Rightarrow> pystr" where
  "remove_noise_character_spec s = filter (\<lambda>c. c \<notin> set (str ''>*|imagedtpnc'')) s"

section \<open>Normalization\<close>

text \<open>
  \<open>str.splitlines\<close> cuts at \<open>\n\<close>, \<open>\r\<close>, \<open>\r\n\<close>, \<open>\v\<close>, \<open>\f\<close>, the separators
  U+001C to U+001E, U+0085, U+2028 and U+2029; the line ends are dropped and a final
  line end opens no further line.
\<close>

definition is_linebreak :: "nat \<Rightarrow> bool" where
  "is_linebreak c = (c \<in> {10, 11, 12, 13, 28, 29, 30, 133, 8232, 8233})"

fun splitlines_from :: "pystr \<Rightarrow> pystr \<Rightarrow> pystr list" where
  "splitlines_from cur [] = (if cur = [] then [] else [cur])"
| "splitlines_from cur [c] =
     (if is_linebreak c then [cur] else [cur @ [c]])"
| "splitlines_from cur (c # d # s) =
     (if c = 13 \<and> d = 10 then cur # splitlines_from [] s
      else if is_linebreak c then cur # splitlines_from [] (d # s)
      else splitlines_from (cur @ [c]) (d # s))"

definition splitlines :: "pystr \<Rightarrow> pystr list" where
  "splitlines s = splitlines_from [] s"

text \<open>\<open>str.strip()\<close> removes the white space (\<open>str.isspace\<close>) at both ends.\<close>

definition is_space :: "nat \<Rightarrow> bool" where
  "is_space c =
     ((9 \<le> c \<and> c \<le> 13) \<or> (28 \<le> c \<and> c \<le> 32) \<or> c = 133 \<or> c = 160 \<or> c = 5760
      \<or> (8192 \<le> c \<and> c \<le> 8202) \<or> c = 8232 \<or> c = 8233 \<or> c = 8239 \<or> c = 8287
      \<or> c = 12288)"

definition strip :: "pystr \<Rightarrow> pystr" where
  "strip s = rev (dropWhile is_space (rev (dropWhile is_space s)))"

text \<open>\<open>sep.join(lines)\<close>.\<close>

fun join :: "pystr \<Rightarrow> pystr list \<Rightarrow> pystr" where
  "join sep [] = []"
| "join sep [l] = l"
| "join sep (l # m # ls) = l @ sep @ join sep (m # ls)"

text \<open>
  The loop of \<open>one_text_pre_process\<close> over the lines, with the list it appends to. A
  line is tested after \<open>remove_image_string\<close> and before \<open>remove_noise_character\<close>.
\<close>

fun pre_process_lines :: "pystr list \<Rightarrow> pystr list \<Rightarrow> pystr list" where
  "pre_process_lines precessed_text_split_lines [] = precessed_text_split_lines"
| "pre_process_lines precessed_text_split_lines (line # lines) =
     (let remove_image_line = remove_image_string line
      in if strip remove_image_line \<in> {str '''', str ''>''}
         then pre_process_lines precessed_text_split_lines lines
         else pre_process_lines
                (precessed_text_split_lines @ [remove_noise_character remove_image_line]) lines)"

definition one_text_pre_process :: "pystr \<Rightarrow> pystr" where
  "one_text_pre_process text = join [10] (pre_process_lines [] (splitlines text))"

text \<open>
  What the specification asks of the output: \<open>re.search\<close> finds no match of the image
  pattern in it, and none of its lines is blank or a lone \<open>>\<close> once trimmed.
\<close>

fun search_image :: "pystr \<Rightarrow> bool" where
  "search_image [] = False"
| "search_image (c # s) = (match_image (c # s) \<noteq> None \<or> search_image s)"

definition has_blank_line :: "pystr \<Rightarrow> bool" where
  "has_blank_line s = (\<exists>l \<in> set (splitlines s). strip l \<in> {str '''', str ''>''})"

section \<open>Language detection\<close>

text \<open>
  \<open>char.lower()\<close> on a one-character string follows the Unicode case mapping. The range
  test of \<open>detect_language\<close> only sees whether the result lies between \<open>'a'\<close> and \<open>'z'\<close>.
  The upper-case ASCII letters map to the lower-case ones; two characters outside
  ASCII have a lower-case form that starts with an ASCII letter: U+0130 (capital I with
  dot above) gives \<open>i\<close> followed by U+0307, and U+212A (the Kelvin sign) gives \<open>k\<close>. Every
  other cased character maps to a character outside ASCII, which the range test
  rejects like the character itself, so the table leaves those unchanged.
\<close>

definition lower :: "nat \<Rightarrow> pystr" where
  "lower c =
     (if 65 \<le> c \<and> c \<le> 90 then [c + 32]
      else if c = 304 then [105, 775]
      else if c = 8490 then [107]
      else [c])"

datatype language = Chinese | English | Unknown

text \<open>The loop body: one character updates the pair of counters.\<close>

definition count_char :: "nat \<times> nat \<Rightarrow> nat \<Rightarrow> nat \<times> nat" where
  "count_char cnt c =
     (case cnt of (chinese_count, english_count) \<Rightarrow>
        if 19968 \<le> c \<and> c \<le> 40959 then (chinese_count + 1, english_count)
        else if str_le (str ''a'') (lower c) \<and> str_le (lower c) (str ''z'')
          then (chinese_count, english_count + 1)
        else (chinese_count, english_count))"

fun count_loop :: "nat \<times> nat \<Rightarrow> pystr \<Rightarrow> nat \<times> nat" where
  "count_loop cnt [] = cnt"
| "count_loop cnt (c # text) = count_loop (count_char cnt c) text"

definition detect_language :: "pystr \<Rightarrow> language" where
  "detect_language text =
     (case count_loop (0, 0) text of (chinese_count, english_count) \<Rightarrow>
        if chinese_count > english_count then Chinese
        else if english_count > chinese_count then English
        else Unknown)"

text \<open>The two character sets the specification names.\<close>

definition is_cjk :: "nat \<Rightarrow> bool" where
  "is_cjk c = (19968 \<le> c \<and> c \<le> 40959)"

definition is_ascii_letter :: "nat \<Rightarrow> bool" where
  "is_ascii_letter c = ((65 \<le> c \<and> c \<le> 90) \<or> (97 \<le> c \<and> c \<le> 122))"

text \<open>
  The specification's wording of \<open>detect_language\<close>: CJK ideographs against ASCII
  letters.
\<close>

definition detect_language_spec :: "pystr \<Rightarrow> language" where
  "detect_language_spec text =
     (let cjk = length (filter is_cjk text); letters = length (filter is_ascii_letter text)
      in if cjk > letters then Chinese else if letters > cjk then English else Unknown)"

text \<open>What the range test on \<open>char.lower()\<close> accepts.\<close>

definition is_counted_letter :: "nat \<Rightarrow> bool" where
  "is_counted_letter c = (is_ascii_letter c \<or> c = 304 \<or> c = 8490)"

section \<open>Threshold\<close>

text \<open>
  \<open>model.predict_proba(X)\<close> gives one row per element of the batch, the probability of
  class 0 and of class 1; \<open>probabilities[:, 1]\<close> is the second column. Probabilities are
  modelled as real numbers: only their order against the threshold is used.
\<close>

definition get_predict_with_threshold ::
  "('x list \<Rightarrow> (real \<times> real) list) \<Rightarrow> 'x list \<Rightarrow> real \<Rightarrow> int list \<times> real list" where
  "get_predict_with_threshold predict_proba X threshold =
     (let probabilities = predict_proba X;
          positive_probabilities = map snd probabilities;
          predictions = map (\<lambda>p. if p > threshold then 1 else 0) positive_probabilities
      in (predictions, positive_probabilities))"

section \<open>Exceptions and the libraries\<close>

text \<open>
  An exception is a value. The script raises \<open>ValueError\<close> itself; the others come from
  the interpreter (\<open>UnboundLocalError\<close>, \<open>IndexError\<close>, \<open>AttributeError\<close>) or stand for
  what a library raises: the document parsers (\<open>ParseError\<close>), \<open>bytes.decode\<close>
  (\<open>DecodeError\<close>) and \<open>requests\<close> (\<open>HTTPError\<close>, \<open>ConnectionError\<close>).
\<close>

datatype error = ParseError | DecodeError | IndexError | UnboundLocalError | ValueError
  | AttributeError | HTTPError | ConnectionError

type_synonym bytes = "nat list"

text \<open>
  What the script calls and does not define is a parameter of the model:
  \<^item> \<open>Document\<close>: \<open>docx.Document(path).paragraphs\<close>, the text of each paragraph, or the
    exception of the parser;
  \<^item> \<open>textract_process\<close>: \<open>textract.process(path)\<close>, the bytes of the converted document;
  \<^item> \<open>decode\<close>: \<open>bytes.decode("utf-8")\<close>;
  \<^item> \<open>predict_proba\<close>: \<open>model.predict_proba\<close> of the classifier passed to \<open>move_files\<close>,
    one row of two probabilities for each text of the batch;
  \<^item> \<open>splitext\<close>, \<open>path_join\<close>, \<open>relpath\<close>, \<open>abspath\<close>: the functions of \<open>os.path\<close>, which
    depend on the platform;
  \<^item> \<open>walk\<close>: \<open>os.walk\<close> on the existing paths, the directories below a root, each with the
    names of its files.
\<close>

record env =
  Document :: "pystr \<Rightarrow> error + pystr list"
  textract_process :: "pystr \<Rightarrow> error + bytes"
  decode :: "bytes \<Rightarrow> error + pystr"
  predict_proba :: "pystr list \<Rightarrow> (real \<times> real) list"
  splitext :: "pystr \<Rightarrow> pystr \<times> pystr"
  path_join :: "pystr \<Rightarrow> pystr \<Rightarrow> pystr"
  relpath :: "pystr \<Rightarrow> pystr \<Rightarrow> pystr"
  abspath :: "pystr \<Rightarrow> pystr"
  walk :: "pystr set \<Rightarrow> pystr \<Rightarrow> (pystr \<times> pystr list) list"

section \<open>Text extraction\<close>

text \<open>The loop of \<open>extract_text_from_docx\<close>: \<open>text += paragraph.text + ' '\<close>.\<close>

fun docx_loop :: "pystr \<Rightarrow> pystr list \<Rightarrow> pystr" where
  "docx_loop text [] = text"
| "docx_loop text (paragraph # paragraphs) = docx_loop (text @ paragraph @ str '' '') paragraphs"

definition extract_text_from_docx :: "env \<Rightarrow> pystr \<Rightarrow> error + pystr" where
  "extract_text_from_docx e file_path =
     (case Document e file_path of
        Inl err \<Rightarrow> Inl err
      | Inr paragraphs \<Rightarrow> Inr (docx_loop [] paragraphs))"

definition extract_text_from_doc :: "env \<Rightarrow> pystr \<Rightarrow> error + pystr" where
  "extract_text_from_doc e file_path =
     (case textract_process e file_path of
        Inl err \<Rightarrow> Inl err
      | Inr text \<Rightarrow> decode e text)"

text \<open>
  The test of \<open>extract_text\<close> is \<open>ext in "docx"\<close>: the extension is looked for inside
  the string \<open>docx\<close>.
\<close>

definition extract_text :: "env \<Rightarrow> pystr \<Rightarrow> pystr \<Rightarrow> error + pystr" where
  "extract_text e file_local ext =
     (if str_in ext (str ''docx'') then extract_text_from_docx e file_local
      else extract_text_from_doc e file_local)"

section \<open>The batch driver\<close>

text \<open>
  The key words of the file-name heuristic, as code points: U+8003 U+8BD5, U+8BD5 U+5377,
  U+5377, U+8BD5 U+9898 and U+8BD5.
\<close>

definition EXAMINATION_KEY_WORDS :: "pystr list" where
  "EXAMINATION_KEY_WORDS =
     [[32771, 35797], [35797, 21367], [21367], [35797, 39064], [35797]]"

definition judge_examination_paper_by_file_name :: "pystr \<Rightarrow> bool" where
  "judge_examination_paper_by_file_name file_name =
     list_ex (\<lambda>key_word. str_in key_word file_name) EXAMINATION_KEY_WORDS"

definition FILE_SUFFIX :: "pystr set" where
  "FILE_SUFFIX = {str ''.doc'', str ''.docx''}"

text \<open>\<open>s.split(sep)\<close> for a separator of one character; the result is never empty.\<close>

fun split_from :: "pystr \<Rightarrow> nat \<Rightarrow> pystr \<Rightarrow> pystr list" where
  "split_from cur sep [] = [cur]"
| "split_from cur sep (c # s) =
     (if c = sep then cur # split_from [] sep s else split_from (cur @ [c]) sep s)"

definition split :: "pystr \<Rightarrow> nat \<Rightarrow> pystr list" where
  "split s sep = split_from [] sep s"

text \<open>
  \<open>predict\<close> is a Python \<open>bool\<close> on the heuristic path and a numpy integer on the model
  path; \<open>if predict\<close> tests its truth value.
\<close>

datatype predict = PyBool bool | NpInt int

fun truthy :: "predict \<Rightarrow> bool" where
  "truthy (PyBool b) = b"
| "truthy (NpInt n) = (n \<noteq> 0)"

text \<open>
  The state \<open>move_files\<close> works on:
  \<^item> \<open>paths\<close>: the paths that exist, files and directories alike (\<open>os.path.exists\<close>);
  \<^item> \<open>trace\<close>: the calls made so far to the extractor, to the classifier and to
    \<open>shutil.copy\<close>, in order;
  \<^item> \<open>file_name_log\<close>: the lines of \<open>file_name_classification.log\<close>;
  \<^item> \<open>move_log\<close>: the lines of \<open>move_log.log\<close>, each with its three fields;
  \<^item> \<open>positive_probabilities\<close>: the local variable of that name, \<open>None\<close> while it is
    unbound. It is assigned on the model path only and keeps its value from one
    iteration of the loop to the next.

  Creating a directory, copying and appending to a log are taken to succeed. Of the
  directories \<open>mkdir(parents=True)\<close> creates, the state records the target directory.
\<close>

datatype call = Extract pystr | Predict pystr | Copy pystr pystr

record state =
  paths :: "pystr set"
  trace :: "call list"
  file_name_log :: "pystr list"
  move_log :: "(predict \<times> real \<times> pystr) list"
  positive_probabilities :: "real list option"

record config =
  input_dir :: pystr
  output_dir :: pystr
  threshold :: real
  just_by_file_name :: bool

definition write_classification_by_file_name_log :: "pystr \<Rightarrow> state \<Rightarrow> state" where
  "write_classification_by_file_name_log file_name s =
     s\<lparr>file_name_log := file_name_log s @ [file_name]\<rparr>"

text \<open>
  The paths of one row: \<open>file_local\<close> with its backslashes turned into slashes,
  \<open>target_dir\<close> and \<open>target_file\<close>. The directory of a row is \<open>root\<close> in the source.
\<close>

definition file_local_of :: "env \<Rightarrow> pystr \<Rightarrow> pystr \<Rightarrow> pystr" where
  "file_local_of e root_dir file =
     (let file_local = path_join e root_dir file
      in if 92 \<in> set file_local then map (\<lambda>c. if c = 92 then 47 else c) file_local
         else file_local)"

definition target_dir_of :: "env \<Rightarrow> config \<Rightarrow> pystr \<Rightarrow> pystr" where
  "target_dir_of e cfg root_dir = path_join e (output_dir cfg) (relpath e root_dir (input_dir cfg))"

definition target_file_of :: "env \<Rightarrow> config \<Rightarrow> pystr \<Rightarrow> pystr \<Rightarrow> pystr" where
  "target_file_of e cfg root_dir file =
     path_join e (target_dir_of e cfg root_dir) (last (split (file_local_of e root_dir file) 47))"

text \<open>
  The decision, lines 322 to 330: by the file name when \<open>just_by_file_name\<close> is set or
  the text has fewer than 50 characters, by the model otherwise. \<open>predictions[0]\<close>
  raises \<open>IndexError\<close> on an empty array.
\<close>

definition classify ::
  "env \<Rightarrow> config \<Rightarrow> pystr \<Rightarrow> pystr \<Rightarrow> pystr \<Rightarrow> state \<Rightarrow> state \<times> (error + predict)" where
  "classify e cfg file target_file text s =
     (if just_by_file_name cfg \<or> length text < 50 then
        (let predict = judge_examination_paper_by_file_name file
         in (if predict then write_classification_by_file_name_log target_file s else s,
             Inr (PyBool predict)))
      else
        (let (predictions, probabilities) =
               get_predict_with_threshold (predict_proba e) [one_text_pre_process text]
                 (threshold cfg);
             s1 = s\<lparr>trace := trace s @ [Predict (one_text_pre_process text)],
                    positive_probabilities := Some probabilities\<rparr>
         in (s1, case predictions of [] \<Rightarrow> Inl IndexError | p # _ \<Rightarrow> Inr (NpInt p))))"

text \<open>Lines 334 and 335: the target directory is created and the file copied.\<close>

definition copy_file :: "pystr \<Rightarrow> pystr \<Rightarrow> pystr \<Rightarrow> state \<Rightarrow> state" where
  "copy_file target_dir file_local target_file s =
     s\<lparr>paths := insert target_file (insert target_dir (paths s)),
       trace := trace s @ [Copy file_local target_file]\<rparr>"

text \<open>
  Lines 337 and 338: the line for the move log reads \<open>positive_probabilities[0]\<close>, which
  raises \<open>UnboundLocalError\<close> while the variable is unbound.
\<close>

definition write_move_log :: "predict \<Rightarrow> pystr \<Rightarrow> state \<Rightarrow> state \<times> error option" where
  "write_move_log predict file_local s =
     (case positive_probabilities s of
        None \<Rightarrow> (s, Some UnboundLocalError)
      | Some [] \<Rightarrow> (s, Some IndexError)
      | Some (p # _) \<Rightarrow> (s\<lparr>move_log := move_log s @ [(predict, p, file_local)]\<rparr>, None))"

text \<open>
  One iteration of the loop over \<open>all_file\<close>. The result is the state the iteration
  leaves and the exception that escapes from it, if any; \<open>continue\<close> and the end of the
  body give \<open>None\<close>. The bare \<open>except\<close> covers the extraction and the language test only.
\<close>

definition process_row :: "env \<Rightarrow> config \<Rightarrow> pystr \<times> pystr \<Rightarrow> state \<Rightarrow> state \<times> error option" where
  "process_row e cfg row s =
     (case row of (root_dir, file) \<Rightarrow>
        let ext = snd (splitext e file) in
        if ext \<notin> FILE_SUFFIX then (s, None)
        else
          let file_local = file_local_of e root_dir file;
              target_dir = target_dir_of e cfg root_dir;
              target_file = target_file_of e cfg root_dir file
          in if target_file \<in> paths s then (s, None)
             else
               let s1 = s\<lparr>trace := trace s @ [Extract file_local]\<rparr>
               in case extract_text e file_local ext of
                    Inl err \<Rightarrow> (s1, None)
                  | Inr text \<Rightarrow>
                      if detect_language text \<noteq> Chinese then (s1, None)
                      else
                        (case classify e cfg file target_file text s1 of
                           (s2, Inl err) \<Rightarrow> (s2, Some err)
                         | (s2, Inr predict) \<Rightarrow>
                             write_move_log predict file_local
                               (if truthy predict
                                then copy_file target_dir file_local target_file s2
                                else s2)))"

text \<open>The loop stops at the first exception that escapes an iteration.\<close>

fun run_rows :: "env \<Rightarrow> config \<Rightarrow> (pystr \<times> pystr) list \<Rightarrow> state \<Rightarrow> state \<times> error option" where
  "run_rows e cfg [] s = (s, None)"
| "run_rows e cfg (row # rows) s =
     (case process_row e cfg row s of
        (s', Some err) \<Rightarrow> (s', Some err)
      | (s', None) \<Rightarrow> run_rows e cfg rows s')"

definition all_file_of :: "(pystr \<times> pystr list) list \<Rightarrow> (pystr \<times> pystr) list" where
  "all_file_of walked =
     concat (map (\<lambda>(root_dir, files). map (\<lambda>file. (root_dir, file)) files) walked)"

text \<open>
  \<open>move_files\<close>: the two checks, \<open>os.makedirs\<close> of the output root, the list of all
  files, the loop. Its local variable is unbound when it starts.
\<close>

definition move_files :: "env \<Rightarrow> config \<Rightarrow> state \<Rightarrow> state \<times> error option" where
  "move_files e cfg s0 =
     (let s = s0\<lparr>positive_probabilities := None\<rparr> in
      if input_dir cfg \<notin> paths s then (s, Some ValueError)
      else if abspath e (input_dir cfg) = abspath e (output_dir cfg) then (s, Some ValueError)
      else
        let s1 = s\<lparr>paths := insert (output_dir cfg) (paths s)\<rparr>;
            all_file = all_file_of (walk e (paths s1) (input_dir cfg))
        in run_rows e cfg all_file s1)"

text \<open>The targets of the copies in a trace, in order.\<close>

fun copy_targets :: "call list \<Rightarrow> pystr list" where
  "copy_targets [] = []"
| "copy_targets (Copy src dst # cs) = dst # copy_targets cs"
| "copy_targets (Extract p # cs) = copy_targets cs"
| "copy_targets (Predict t # cs) = copy_targets cs"

text \<open>Every copy made so far went to a path that exists now, and no two to the same.\<close>

definition copies_ok :: "state \<Rightarrow> bool" where
  "copies_ok s = (set (copy_targets (trace s)) \<subseteq> paths s \<and> distinct (copy_targets (trace s)))"

section \<open>Model download\<close>

text \<open>
  The answer to \<open>requests.get(download_url, headers={'Range': 'bytes=S-'}, stream=True)\<close>:
  whether \<open>raise_for_status\<close> passes, the \<open>content-range\<close> header if there is one, the
  chunks \<open>iter_content\<close> yields and the exception it raises behind them, if any. The
  network is a parameter: \<open>requests_get url S\<close> is the answer (or the exception of
  \<open>requests.get\<close>) to a request for the bytes from \<open>S\<close> on, and \<open>int_of_str\<close> is \<open>int\<close> on a
  string.
\<close>

record response =
  status_ok :: bool
  content_range :: "pystr option"
  chunks :: "bytes list"
  stream_error :: "error option"

record net =
  requests_get :: "pystr \<Rightarrow> nat \<Rightarrow> error + response"
  int_of_str :: "pystr \<Rightarrow> error + int"

text \<open>
  The state: the files with their contents, the range requests sent (URL and first
  byte), and what was printed; the one message of the function says that something
  went wrong during the download.
\<close>

datatype message = DownloadProblem

record disk =
  files :: "pystr \<rightharpoonup> bytes"
  requests :: "(pystr \<times> nat) list"
  stdout :: "message list"

text \<open>
  The loop over the chunks: each is appended to the temporary file and counted by the
  progress bar, whose counter \<open>n\<close> starts at the size of the partial file.
\<close>

fun write_chunks :: "bytes list \<Rightarrow> bytes \<times> int \<Rightarrow> bytes \<times> int" where
  "write_chunks [] (f, n) = (f, n)"
| "write_chunks (data # rest) (f, n) = write_chunks rest (f @ data, n + int (length data))"

definition download_model :: "net \<Rightarrow> pystr \<Rightarrow> pystr \<Rightarrow> disk \<Rightarrow> disk \<times> error option" where
  "download_model nw model_name download_url d =
     (if model_name \<in> dom (files d) then (d, None)
      else
        let temp_model_name = model_name @ str ''.tmp'';
            initial_position = (case files d temp_model_name of
                                  Some old \<Rightarrow> length old
                                | None \<Rightarrow> 0);
            d1 = d\<lparr>requests := requests d @ [(download_url, initial_position)]\<rparr>
        in case requests_get nw download_url initial_position of
             Inl err \<Rightarrow> (d1, Some err)
           | Inr response \<Rightarrow>
               if \<not> status_ok response then (d1, Some HTTPError)
               else
                 (case content_range response of
                    None \<Rightarrow> (d1, Some AttributeError)
                  | Some header \<Rightarrow>
                      (case split header 47 of
                         _ # size_field # _ \<Rightarrow>
                           (case int_of_str nw size_field of
                              Inl err \<Rightarrow> (d1, Some err)
                            | Inr total_size \<Rightarrow>
                                let old = (case files d1 temp_model_name of
                                             Some old \<Rightarrow> old
                                           | None \<Rightarrow> []);
                                    (written, n) = write_chunks (chunks response)
                                                     (old, int initial_position);
                                    d2 = d1\<lparr>files := (files d1)(temp_model_name \<mapsto> written)\<rparr>
                                in case stream_error response of
                                     Some err \<Rightarrow> (d2, Some err)
                                   | None \<Rightarrow>
                                       let d3 = (if total_size \<noteq> 0 \<and> n \<noteq> total_size
                                                 then d2\<lparr>stdout := stdout d2 @ [DownloadProblem]\<rparr>
                                                 else d2)
                                       in (d3\<lparr>files := ((files d3)(temp_model_name := None))
                                                         (model_name \<mapsto> written)\<rparr>,
                                           None))
                       | _ \<Rightarrow> (d1, Some IndexError))))"

section \<open>A concrete environment\<close>

text \<open>
  An input directory \<open>in\<close> and an output directory \<open>out\<close> on a POSIX system. The
  converter knows three documents and fails on \<open>in/x.doc\<close>: \<open>in/a.docx\<close> holds the
  ideograph U+4E2D fifty times, every other file the two ideographs U+4E2D U+6587. The
  classifier gives every text the probability 0.9. The list of files of \<open>in\<close> is a
  parameter.
\<close>

text \<open>UTF-8 decoding of ASCII and of three-byte sequences, which is all the documents use.\<close>

fun utf8_decode :: "bytes \<Rightarrow> error + pystr" where
  "utf8_decode [] = Inr []"
| "utf8_decode (b # bs) =
     (if b < 128 then map_sum id (\<lambda>t. b # t) (utf8_decode bs)
      else if 224 \<le> b \<and> b < 240 then
        (case bs of
           c # d # rest \<Rightarrow>
             map_sum id (\<lambda>t. ((b - 224) * 4096 + (c - 128) * 64 + (d - 128)) # t)
               (utf8_decode (drop 2 bs))
         | _ \<Rightarrow> Inl DecodeError)
      else Inl DecodeError)"

definition long_text :: pystr where
  "long_text = replicate 50 20013"

definition short_text :: pystr where
  "short_text = [20013, 25991]"

text \<open>The extension: from the last dot of the name on.\<close>

definition splitext_last_dot :: "pystr \<Rightarrow> pystr \<times> pystr" where
  "splitext_last_dot p =
     (if 46 \<in> set p
      then (butlast (rev (dropWhile (\<lambda>c. c \<noteq> 46) (rev p))),
            46 # rev (takeWhile (\<lambda>c. c \<noteq> 46) (rev p)))
      else (p, []))"

definition example_env :: "pystr list \<Rightarrow> env" where
  "example_env fs =
     \<lparr>Document = (\<lambda>p. Inl ParseError),
      textract_process =
        (\<lambda>p. if p = str ''in/x.doc'' then Inl ParseError
              else if p = str ''in/a.docx'' then Inr (concat (replicate 50 [228, 184, 173]))
              else Inr [228, 184, 173, 230, 150, 135]),
      decode = utf8_decode,
      predict_proba = (\<lambda>X. map (\<lambda>t. (0.1, 0.9)) X),
      splitext = splitext_last_dot,
      path_join = (\<lambda>a b. a @ str ''/'' @ b),
      relpath = (\<lambda>p start. if p = start then str ''.'' else p),
      abspath = (\<lambda>p. p),
      walk = (\<lambda>existing top. [(top, fs)])\<rparr>"

definition example_config :: "real \<Rightarrow> bool \<Rightarrow> config" where
  "example_config t by_name =
     \<lparr>input_dir = str ''in'', output_dir = str ''out'', threshold = t, just_by_file_name = by_name\<rparr>"

definition example_state :: state where
  "example_state =
     \<lparr>paths = {str ''in''}, trace = [], file_name_log = [], move_log = [],
      positive_probabilities = None\<rparr>"

text \<open>A first run on the files \<open>fs\<close>, and a second run on the state the first one leaves.\<close>

definition first_run :: "pystr list \<Rightarrow> config \<Rightarrow> state \<times> error option" where
  "first_run fs cfg = move_files (example_env fs) cfg example_state"

definition second_run :: "pystr list \<Rightarrow> config \<Rightarrow> state \<times> error option" where
  "second_run fs cfg = move_files (example_env fs) cfg (fst (first_run fs cfg))"

text \<open>
  A server that holds six bytes and a partial file with the first two of them. Asked for
  the bytes from 2 on, the server announces \<open>bytes 2-5/6\<close>, sends two bytes and closes
  the stream without an exception. \<open>int\<close> is the reading of decimal digits.
\<close>

definition digits_int :: "pystr \<Rightarrow> error + int" where
  "digits_int s =
     (if s \<noteq> [] \<and> list_all (\<lambda>c. 48 \<le> c \<and> c \<le> 57) s
      then Inr (foldl (\<lambda>n c. 10 * n + (int c - 48)) 0 s)
      else Inl ValueError)"

definition cut_off_net :: net where
  "cut_off_net =
     \<lparr>requests_get = (\<lambda>url start.
        if start = 2
        then Inr \<lparr>status_ok = True, content_range = Some (str ''bytes 2-5/6''),
                  chunks = [[3, 4]], stream_error = None\<rparr>
        else Inl ConnectionError),
      int_of_str = digits_int\<rparr>"

definition partial_disk :: disk where
  "partial_disk =
     \<lparr>files = [str ''TextClassifier.pkl.tmp'' \<mapsto> [1, 2]], requests = [], stdout = []\<rparr>"

section \<open>Properties of the text functions\<close>

subsection \<open>Noise characters\<close>

lemma sub_class_filter: "sub_class cls s = filter (\<lambda>c. c \<notin> set cls) s"
  by (induction s) simp_all

lemma noise_class_set:
  "set noise_class = {62, 42, 124, 105, 109, 97, 103, 101, 100, 116, 112, 110}"
  by (simp add: noise_class_def str_simps) blast

text \<open>
  Claim C9, as amended. For every input string, \<open>remove_noise_character\<close> removes exactly
  the occurrences of the twelve characters \<open>> * | i m a g e d t p n\<close> (code points 62,
  42, 124, 105, 109, 97, 103, 101, 100, 116, 112, 110), each on its own and anywhere in
  the string, and keeps every other character in its place. The letter \<open>c\<close> is not in
  the character class of the pattern and is kept.
\<close>

theorem remove_noise_character_class:
  "remove_noise_character s =
     filter (\<lambda>c. c \<notin> {62, 42, 124, 105, 109, 97, 103, 101, 100, 116, 112, 110}) s"
  by (simp add: remove_noise_character_def sub_class_filter noise_class_set)

text \<open>
  Claim C9, an instance: from \<open>a cat | png\<close> only the blanks and the \<open>c\<close> remain.
\<close>

theorem remove_noise_character_class_witness:
  "remove_noise_character (str ''a cat | png'') = str '' c  ''"
  using remove_noise_character_class [of "str ''a cat | png''"] by (simp add: str_simps)

text \<open>
  Claim C9 as stated fails: the claim's set holds the letter \<open>c\<close>, and the code keeps
  it.
\<close>

theorem remove_noise_character_keeps_c:
  "remove_noise_character (str ''c'') = str ''c'' \<and> remove_noise_character_spec (str ''c'') = []"
  by (simp add: remove_noise_character_def remove_noise_character_spec_def noise_class_def
        str_simps)

subsection \<open>Normalization\<close>

lemmas pattern_defs = match_image_def image_sized_def image_plain_def bracket_brace_def lits_def

lemma pre_process_lines_eq:
  "pre_process_lines acc ls =
     acc @ map (\<lambda>l. remove_noise_character (remove_image_string l))
             (filter (\<lambda>l. strip (remove_image_string l) \<notin> {str '''', str ''>''}) ls)"
  by (induction ls arbitrary: acc) (simp_all add: Let_def)

lemma remove_noise_character_set: "set (remove_noise_character s) \<inter> set noise_class = {}"
  by (auto simp add: remove_noise_character_def sub_class_filter)

lemma join_set: "set (join sep ls) \<subseteq> set sep \<union> \<Union> (set ` set ls)"
  by (induction sep ls rule: join.induct) auto

lemma splitlines_from_set:
  "l \<in> set (splitlines_from cur s) \<Longrightarrow> set l \<subseteq> set cur \<union> set s"
  by (induction cur s rule: splitlines_from.induct) (auto split: if_splits)

lemma strip_set: "set (strip s) \<subseteq> set s"
  by (auto simp add: strip_def dest!: set_dropWhileD)

lemma newline_not_noise: "10 \<notin> set noise_class"
  by (simp add: noise_class_def str_simps)

lemma gt_noise: "62 \<in> set noise_class"
  by (simp add: noise_class_def str_simps)

lemma one_text_pre_process_noise: "set (one_text_pre_process T) \<inter> set noise_class = {}"
proof -
  have "set (one_text_pre_process T)
          \<subseteq> {10} \<union> \<Union> (set ` set (pre_process_lines [] (splitlines T)))"
    unfolding one_text_pre_process_def using join_set [of "[10]"] by simp
  moreover have "\<Union> (set ` set (pre_process_lines [] (splitlines T))) \<inter> set noise_class = {}"
    using remove_noise_character_set by (auto simp add: pre_process_lines_eq)
  ultimately show ?thesis using newline_not_noise by blast
qed

text \<open>
  Claim C4, as amended. For every input text \<open>T\<close>, \<open>one_text_pre_process T\<close> is made of
  the lines of \<open>T\<close>, in order: each line has the matches of the image pattern removed
  by one pass of \<open>remove_image_string\<close>; a line that is then empty or a single \<open>>\<close> after
  trimming is dropped; every line kept has its noise characters removed; the lines are
  joined by newlines. The output holds no noise character, so none of its lines is a
  single \<open>>\<close> after trimming. Nothing is promised about blank lines or about matches
  of the image pattern in the output.
\<close>

theorem one_text_pre_process_lines:
  "one_text_pre_process T =
     join [10] (map (\<lambda>l. remove_noise_character (remove_image_string l))
                  (filter (\<lambda>l. strip (remove_image_string l) \<notin> {str '''', str ''>''})
                     (splitlines T)))
   \<and> set (one_text_pre_process T) \<inter> set noise_class = {}
   \<and> (\<forall>l \<in> set (splitlines (one_text_pre_process T)). strip l \<noteq> str ''>'')"
proof (intro conjI ballI)
  show "one_text_pre_process T =
     join [10] (map (\<lambda>l. remove_noise_character (remove_image_string l))
                  (filter (\<lambda>l. strip (remove_image_string l) \<notin> {str '''', str ''>''})
                     (splitlines T)))"
    by (simp add: one_text_pre_process_def pre_process_lines_eq)
  show "set (one_text_pre_process T) \<inter> set noise_class = {}"
    by (rule one_text_pre_process_noise)
  fix l assume "l \<in> set (splitlines (one_text_pre_process T))"
  then have "set l \<subseteq> set (one_text_pre_process T)"
    using splitlines_from_set [of l "[]"] by (simp add: splitlines_def)
  then have "set (strip l) \<inter> set noise_class = {}"
    using strip_set [of l] one_text_pre_process_noise [of T] by blast
  then show "strip l \<noteq> str ''>''"
    using gt_noise by (auto simp add: str_simps)
qed

text \<open>
  Claim C4, an instance: of the two lines \<open>>\<close> and \<open>x![p](q)y >\<close> the first is dropped,
  the second loses its image and its \<open>>\<close>, and the one line of the output is not a lone
  \<open>>\<close>.
\<close>

theorem one_text_pre_process_lines_witness:
  "one_text_pre_process (str ''>'' @ [10] @ str ''x![p](q)y >'') = str ''xy ''
   \<and> splitlines (str ''xy '') = [str ''xy '']
   \<and> strip (str ''xy '') \<noteq> str ''>''"
  using one_text_pre_process_lines [of "str ''>'' @ [10] @ str ''x![p](q)y >''"]
  by (simp add: splitlines_def is_linebreak_def str_simps pattern_defs strip_def is_space_def
       remove_noise_character_def noise_class_def)

text \<open>
  Claim C4 as stated fails. On the two lines \<open>a\<close> and \<open>!a[x](y)\<close> neither line is
  blank when it is tested, and neither holds a match of the image pattern. Removing the
  noise character \<open>a\<close> then leaves an empty first line and turns the second line into
  the image reference \<open>![x](y)\<close>: the output has a blank line and a match of the pattern.
\<close>

theorem one_text_pre_process_blank_and_image:
  "one_text_pre_process (str ''a'' @ [10] @ str ''!a[x](y)'') = [10] @ str ''![x](y)''
   \<and> search_image ([10] @ str ''![x](y)'')
   \<and> has_blank_line ([10] @ str ''![x](y)'')"
  by (simp add: one_text_pre_process_def splitlines_def is_linebreak_def str_simps pattern_defs
       strip_def is_space_def remove_noise_character_def noise_class_def has_blank_line_def)

subsection \<open>Language detection\<close>

lemma lower_range:
  "(str_le (str ''a'') (lower c) \<and> str_le (lower c) (str ''z'')) = is_counted_letter c"
  by (auto simp add: lower_def str_simps is_counted_letter_def is_ascii_letter_def)

lemma cjk_not_letter: "is_cjk c \<Longrightarrow> \<not> is_counted_letter c"
  by (auto simp add: is_cjk_def is_counted_letter_def is_ascii_letter_def)

lemma count_loop_eq:
  "count_loop (a, b) s =
     (a + length (filter is_cjk s), b + length (filter is_counted_letter s))"
proof (induction s arbitrary: a b)
  case Nil
  then show ?case by simp
next
  case (Cons c s)
  show ?case
  proof (cases "is_cjk c")
    case True
    then have "count_char (a, b) c = (a + 1, b)"
      by (simp add: count_char_def is_cjk_def)
    with True Cons show ?thesis by (simp add: cjk_not_letter)
  next
    case False
    then have "count_char (a, b) c = (a, if is_counted_letter c then b + 1 else b)"
      using lower_range [of c] by (simp add: count_char_def is_cjk_def)
    with False Cons show ?thesis by simp
  qed
qed

text \<open>
  Claim C8, as amended. For every text, \<open>detect_language\<close> counts the characters in the
  range U+4E00 to U+9FFF and the characters whose lower-case form lies between \<open>a\<close> and
  \<open>z\<close>: the ASCII letters of either case and, outside ASCII, U+0130 and U+212A. It
  returns \<open>Chinese\<close> when the first count is strictly greater, \<open>English\<close> when the second
  is strictly greater, and \<open>Unknown\<close> when the counts are equal.
\<close>

theorem detect_language_counts:
  "detect_language s =
     (let cjk = length (filter is_cjk s); letters = length (filter is_counted_letter s)
      in if cjk > letters then Chinese else if letters > cjk then English else Unknown)"
  by (simp add: detect_language_def count_loop_eq Let_def)

text \<open>
  Claim C8, an instance: two ASCII letters of different case against one ideograph give
  \<open>English\<close>.
\<close>

theorem detect_language_counts_witness:
  "detect_language (str ''aB'' @ [20013]) = English"
  using detect_language_counts [of "str ''aB'' @ [20013]"]
  by (simp add: str_simps is_cjk_def is_counted_letter_def is_ascii_letter_def)

text \<open>
  Claim C8 as stated fails: the one-character text U+212A (the Kelvin sign) holds no
  ideograph and no ASCII letter, so the claim gives \<open>Unknown\<close>; its lower-case form is
  \<open>k\<close>, the code counts it as a letter and returns \<open>English\<close>.
\<close>

theorem detect_language_kelvin:
  "detect_language [8490] = English \<and> detect_language_spec [8490] = Unknown"
  by (simp add: detect_language_def detect_language_spec_def count_char_def lower_def str_simps
        is_cjk_def is_ascii_letter_def)

subsection \<open>Threshold\<close>



section \<open>Properties of text extraction\<close>

lemma docx_loop_eq: "docx_loop acc ps = acc @ concat (map (\<lambda>p. p @ str '' '') ps)"
  by (induction ps arbitrary: acc) simp_all

lemma extract_text_from_docx_paragraphs:
  "Document e file_path = Inr ps \<Longrightarrow>
     extract_text_from_docx e file_path = Inr (concat (map (\<lambda>p. p @ str '' '') ps))"
  by (simp add: extract_text_from_docx_def docx_loop_eq)

text \<open>
  Claim C1, on the code. \<open>move_files\<close> passes the extension as \<open>os.path.splitext\<close>
  returns it, with its dot. Neither \<open>.docx\<close> nor \<open>.doc\<close> occurs inside the string
  \<open>docx\<close>, so \<open>extract_text\<close> sends both to the converter and never reaches
  \<open>extract_text_from_docx\<close> from the batch driver; only an extension without the dot
  goes to the paragraph extractor.
\<close>

theorem extract_text_dotted_extension:
  "extract_text e file_local (str ''.docx'') = extract_text_from_doc e file_local
   \<and> extract_text e file_local (str ''.doc'') = extract_text_from_doc e file_local
   \<and> extract_text e file_local (str ''docx'') = extract_text_from_docx e file_local"
  by (simp add: extract_text_def str_simps)

section \<open>Properties of the batch driver\<close>

subsection \<open>One iteration\<close>

lemma copy_targets_append: "copy_targets (xs @ ys) = copy_targets xs @ copy_targets ys"
  by (induction xs rule: copy_targets.induct) simp_all

lemma process_row_skip:
  "target_file_of e cfg root_dir file \<in> paths s \<Longrightarrow> process_row e cfg (root_dir, file) s = (s, None)"
  by (simp add: process_row_def Let_def)

lemma classify_paths:
  "classify e cfg file target_file text s = (s', r) \<Longrightarrow>
     paths s' = paths s \<and> copy_targets (trace s') = copy_targets (trace s)"
  by (auto simp add: classify_def Let_def write_classification_by_file_name_log_def
        copy_targets_append split: if_splits prod.splits)

lemma write_move_log_paths:
  "paths (fst (write_move_log predict file_local s)) = paths s
   \<and> trace (fst (write_move_log predict file_local s)) = trace s"
  by (simp add: write_move_log_def split: option.splits list.splits)

lemma process_row_paths: "paths s \<subseteq> paths (fst (process_row e cfg row s))"
  by (cases row)
     (auto simp add: process_row_def Let_def write_move_log_paths copy_file_def
       split: sum.splits prod.splits dest: classify_paths)

lemma process_row_copies_ok:
  assumes "copies_ok s"
  shows "copies_ok (fst (process_row e cfg row s))"
proof (cases row)
  case (Pair root_dir fname)
  show ?thesis
    using assms unfolding Pair copies_ok_def
    by (auto simp add: process_row_def Let_def write_move_log_paths copy_file_def
          copy_targets_append
        split: sum.splits prod.splits dest!: classify_paths)
qed

text \<open>The iteration of a file that the file name decides.\<close>

lemma process_row_heuristic:
  assumes "snd (splitext e file) \<in> FILE_SUFFIX"
      and "target_file_of e cfg root_dir file \<notin> paths s"
      and "extract_text e (file_local_of e root_dir file) (snd (splitext e file)) = Inr text"
      and "detect_language text = Chinese"
      and "just_by_file_name cfg \<or> length text < 50"
  shows "process_row e cfg (root_dir, file) s =
     (let s1 = s\<lparr>trace := trace s @ [Extract (file_local_of e root_dir file)]\<rparr>;
          predict = judge_examination_paper_by_file_name file
      in write_move_log (PyBool predict) (file_local_of e root_dir file)
           (if predict
            then copy_file (target_dir_of e cfg root_dir) (file_local_of e root_dir file)
                   (target_file_of e cfg root_dir file)
                   (write_classification_by_file_name_log (target_file_of e cfg root_dir file) s1)
            else s1))"
  using assms by (simp add: process_row_def classify_def Let_def)

text \<open>The iteration of a file that the model decides, on a batch of one row.\<close>

lemma process_row_model:
  assumes "snd (splitext e file) \<in> FILE_SUFFIX"
      and "target_file_of e cfg root_dir file \<notin> paths s"
      and "extract_text e (file_local_of e root_dir file) (snd (splitext e file)) = Inr text"
      and "detect_language text = Chinese"
      and "\<not> just_by_file_name cfg" and "50 \<le> length text"
      and "predict_proba e [one_text_pre_process text] = [(q, p)]"
  shows "process_row e cfg (root_dir, file) s =
     (let s2 = s\<lparr>trace := trace s @ [Extract (file_local_of e root_dir file),
                                        Predict (one_text_pre_process text)],
                  positive_probabilities := Some [p]\<rparr>;
          s3 = (if p > threshold cfg
                then copy_file (target_dir_of e cfg root_dir) (file_local_of e root_dir file)
                       (target_file_of e cfg root_dir file) s2
                else s2)
      in (s3\<lparr>move_log := move_log s3 @
              [(NpInt (if p > threshold cfg then 1 else 0), p, file_local_of e root_dir file)]\<rparr>,
          None))"
  using assms
  by (simp add: process_row_def classify_def Let_def get_predict_with_threshold_def
        write_move_log_def copy_file_def)

subsection \<open>The loop and the whole run\<close>

lemma run_rows_paths: "paths s \<subseteq> paths (fst (run_rows e cfg rows s))"
proof (induction rows arbitrary: s)
  case Nil
  then show ?case by simp
next
  case (Cons row rows)
  obtain s' r where step: "process_row e cfg row s = (s', r)"
    by (cases "process_row e cfg row s")
  then have "paths s \<subseteq> paths s'" using process_row_paths [of s e cfg row] by simp
  with Cons [of s'] step show ?case by (cases r) auto
qed

lemma run_rows_copies_ok: "copies_ok s \<Longrightarrow> copies_ok (fst (run_rows e cfg rows s))"
proof (induction rows arbitrary: s)
  case Nil
  then show ?case by simp
next
  case (Cons row rows)
  obtain s' r where step: "process_row e cfg row s = (s', r)"
    by (cases "process_row e cfg row s")
  then have "copies_ok s'" using process_row_copies_ok [OF Cons.prems, of e cfg row] by simp
  with Cons.IH [of s'] step show ?case by (cases r) auto
qed

text \<open>Rows whose target exists already can be left out of the list.\<close>

lemma run_rows_skip:
  "P \<subseteq> paths s \<Longrightarrow>
     run_rows e cfg rows s =
     run_rows e cfg (filter (\<lambda>(root_dir, file). target_file_of e cfg root_dir file \<notin> P) rows) s"
proof (induction rows arbitrary: s)
  case Nil
  then show ?case by simp
next
  case (Cons row rows)
  obtain root_dir fname where row: "row = (root_dir, fname)" by (cases row)
  show ?case
  proof (cases "target_file_of e cfg root_dir fname \<in> P")
    case True
    then have "process_row e cfg row s = (s, None)"
      using Cons.prems row process_row_skip by blast
    with True row Cons show ?thesis by simp
  next
    case False
    obtain s' r where step: "process_row e cfg row s = (s', r)"
      by (cases "process_row e cfg row s")
    then have "P \<subseteq> paths s'" using process_row_paths [of s e cfg row] Cons.prems by auto
    with Cons.IH [of s'] step False row show ?thesis by (cases r) auto
  qed
qed

lemma move_files_valid:
  assumes "input_dir cfg \<in> paths s" "abspath e (input_dir cfg) \<noteq> abspath e (output_dir cfg)"
  shows "move_files e cfg s =
     run_rows e cfg (all_file_of (walk e (insert (output_dir cfg) (paths s)) (input_dir cfg)))
       (s\<lparr>positive_probabilities := None, paths := insert (output_dir cfg) (paths s)\<rparr>)"
  using assms by (simp add: move_files_def Let_def)

lemma move_files_paths: "paths s \<subseteq> paths (fst (move_files e cfg s))"
  using run_rows_paths
    [of "s\<lparr>positive_probabilities := None, paths := insert (output_dir cfg) (paths s)\<rparr>"]
  by (auto simp add: move_files_def Let_def)

lemma move_files_copies_ok: "copies_ok s \<Longrightarrow> copies_ok (fst (move_files e cfg s))"
  using run_rows_copies_ok
    [of "s\<lparr>positive_probabilities := None, paths := insert (output_dir cfg) (paths s)\<rparr>"]
  by (auto simp add: move_files_def Let_def copies_ok_def)

lemma move_files_output_dir:
  assumes "input_dir cfg \<in> paths s" "abspath e (input_dir cfg) \<noteq> abspath e (output_dir cfg)"
  shows "output_dir cfg \<in> paths (fst (move_files e cfg s))"
  using run_rows_paths
    [of "s\<lparr>positive_probabilities := None, paths := insert (output_dir cfg) (paths s)\<rparr>" e cfg]
  unfolding move_files_valid [OF assms] by auto

subsection \<open>The concrete environment\<close>

lemma utf8_decode_zhong:
  "utf8_decode (concat (replicate n [228, 184, 173])) = Inr (replicate n 20013)"
  by (induction n) simp_all

lemma long_text_length: "length long_text = 50"
  by (simp add: long_text_def)

lemma long_text_language: "detect_language long_text = Chinese"
  by (simp add: detect_language_def count_loop_eq long_text_def is_cjk_def is_counted_letter_def
        is_ascii_letter_def)

lemma short_text_length: "length short_text = 2"
  by (simp add: short_text_def)

lemma short_text_language: "detect_language short_text = Chinese"
  by (simp add: detect_language_def short_text_def count_char_def)

lemma example_ext:
  "snd (splitext (example_env fs) (str ''a.docx'')) = str ''.docx''"
  "snd (splitext (example_env fs) (str ''b.doc'')) = str ''.doc''"
  "snd (splitext (example_env fs) (str ''x.doc'')) = str ''.doc''"
  "snd (splitext (example_env fs) (35797 # str ''.doc'')) = str ''.doc''"
  by (simp_all add: example_env_def splitext_last_dot_def str_simps)

lemma suffix_ok: "str ''.docx'' \<in> FILE_SUFFIX" "str ''.doc'' \<in> FILE_SUFFIX"
  by (simp_all add: FILE_SUFFIX_def)

lemma example_file_local:
  "file_local_of (example_env fs) (str ''in'') (str ''a.docx'') = str ''in/a.docx''"
  "file_local_of (example_env fs) (str ''in'') (str ''b.doc'') = str ''in/b.doc''"
  "file_local_of (example_env fs) (str ''in'') (str ''x.doc'') = str ''in/x.doc''"
  "file_local_of (example_env fs) (str ''in'') (35797 # str ''.doc'')
     = str ''in/'' @ 35797 # str ''.doc''"
  by (simp_all add: file_local_of_def example_env_def str_simps)

lemma example_target_dir:
  "target_dir_of (example_env fs) (example_config t n) (str ''in'') = str ''out/.''"
  by (simp add: target_dir_of_def example_env_def example_config_def str_simps)

lemma example_target_file:
  "target_file_of (example_env fs) (example_config t n) (str ''in'') (str ''a.docx'')
     = str ''out/./a.docx''"
  "target_file_of (example_env fs) (example_config t n) (str ''in'') (str ''b.doc'')
     = str ''out/./b.doc''"
  "target_file_of (example_env fs) (example_config t n) (str ''in'') (str ''x.doc'')
     = str ''out/./x.doc''"
  "target_file_of (example_env fs) (example_config t n) (str ''in'') (35797 # str ''.doc'')
     = str ''out/./'' @ 35797 # str ''.doc''"
  by (simp_all add: target_file_of_def example_target_dir example_file_local split_def)
     (simp_all add: example_env_def str_simps)

lemma example_extract:
  "extract_text (example_env fs) (str ''in/a.docx'') (str ''.docx'') = Inr long_text"
  "extract_text (example_env fs) (str ''in/b.doc'') (str ''.doc'') = Inr short_text"
  "extract_text (example_env fs) (str ''in/x.doc'') (str ''.doc'') = Inl ParseError"
  "extract_text (example_env fs) (str ''in/'' @ 35797 # str ''.doc'') (str ''.doc'')
     = Inr short_text"
  by (simp_all add: extract_text_def extract_text_from_doc_def example_env_def utf8_decode_zhong
        long_text_def short_text_def)
     (simp_all add: str_simps)

lemma example_judge:
  "judge_examination_paper_by_file_name (35797 # str ''.doc'')"
  "\<not> judge_examination_paper_by_file_name (str ''b.doc'')"
  by (simp_all add: judge_examination_paper_by_file_name_def EXAMINATION_KEY_WORDS_def str_simps)

lemmas example_simps = example_ext suffix_ok example_file_local example_target_dir
  example_target_file example_extract example_judge long_text_length long_text_language
  short_text_language

lemma example_predict: "predict_proba (example_env fs) [t] = [(0.1, 0.9)]"
  by (simp add: example_env_def)

lemma example_cfg:
  "input_dir (example_config t n) = str ''in''" "output_dir (example_config t n) = str ''out''"
  "threshold (example_config t n) = t" "just_by_file_name (example_config t n) = n"
  by (simp_all add: example_config_def)

lemma example_walk: "all_file_of (walk (example_env fs) ps d) = map (\<lambda>f. (d, f)) fs"
  by (simp add: all_file_of_def example_env_def)

lemma example_abspath: "abspath (example_env fs) p = p"
  by (simp add: example_env_def)

lemma example_skip:
  "str ''out/./a.docx'' \<in> paths s \<Longrightarrow>
     process_row (example_env fs) (example_config t n) (str ''in'', str ''a.docx'') s = (s, None)"
  "str ''out/./b.doc'' \<in> paths s \<Longrightarrow>
     process_row (example_env fs) (example_config t n) (str ''in'', str ''b.doc'') s = (s, None)"
  "str ''out/./'' @ 35797 # str ''.doc'' \<in> paths s \<Longrightarrow>
     process_row (example_env fs) (example_config t n) (str ''in'', 35797 # str ''.doc'') s
       = (s, None)"
  by (simp_all add: process_row_skip example_target_file)

lemma example_step_model:
  assumes "str ''out/./a.docx'' \<notin> paths s"
  shows "process_row (example_env fs) (example_config t False) (str ''in'', str ''a.docx'') s =
     (let s2 = s\<lparr>trace := trace s @ [Extract (str ''in/a.docx''),
                                        Predict (one_text_pre_process long_text)],
                  positive_probabilities := Some [0.9]\<rparr>;
          s3 = (if 0.9 > t
                then copy_file (str ''out/.'') (str ''in/a.docx'') (str ''out/./a.docx'') s2
                else s2)
      in (s3\<lparr>move_log := move_log s3 @
              [(NpInt (if 0.9 > t then 1 else 0), 0.9, str ''in/a.docx'')]\<rparr>,
          None))"
  using assms
    process_row_model [of "example_env fs" "str ''a.docx''" "example_config t False"
      "str ''in''" s long_text "0.1" "0.9"]
  by (simp add: example_simps example_predict example_cfg)

lemma example_step_plain:
  assumes "str ''out/./b.doc'' \<notin> paths s"
  shows "process_row (example_env fs) (example_config t n) (str ''in'', str ''b.doc'') s =
     write_move_log (PyBool False) (str ''in/b.doc'')
       (s\<lparr>trace := trace s @ [Extract (str ''in/b.doc'')]\<rparr>)"
  using assms
    process_row_heuristic [of "example_env fs" "str ''b.doc''" "example_config t n"
      "str ''in''" s short_text]
  by (simp add: example_simps example_cfg short_text_length)

lemma example_step_exam:
  assumes "str ''out/./'' @ 35797 # str ''.doc'' \<notin> paths s"
  shows "process_row (example_env fs) (example_config t n) (str ''in'', 35797 # str ''.doc'') s =
     write_move_log (PyBool True) (str ''in/'' @ 35797 # str ''.doc'')
       (copy_file (str ''out/.'') (str ''in/'' @ 35797 # str ''.doc'')
          (str ''out/./'' @ 35797 # str ''.doc'')
          (write_classification_by_file_name_log (str ''out/./'' @ 35797 # str ''.doc'')
             (s\<lparr>trace := trace s @ [Extract (str ''in/'' @ 35797 # str ''.doc'')]\<rparr>)))"
  using assms
    process_row_heuristic [of "example_env fs" "35797 # str ''.doc''" "example_config t n"
      "str ''in''" s short_text]
  by (simp add: example_simps example_cfg short_text_length)

lemmas example_steps =
  example_skip [unfolded str_simps, simplified]
  example_step_model [unfolded str_simps, simplified]
  example_step_plain [unfolded str_simps, simplified]
  example_step_exam [unfolded str_simps, simplified]

lemmas run_simps = first_run_def second_run_def move_files_valid example_walk example_cfg
  example_abspath example_state_def example_steps
  write_move_log_def copy_file_def write_classification_by_file_name_log_def Let_def str_simps

subsection \<open>A target that exists already\<close>

text \<open>
  Claim C10. A file with a supported extension whose target path exists when the loop
  reaches it is skipped before anything else is done: the state is the same afterwards
  (no call to the extractor, to the classifier or to \<open>shutil.copy\<close> in the trace, no new
  path, no line in either log), no exception escapes, and the loop goes on with the
  rest of the list. This holds whatever the libraries would have answered.
\<close>

theorem process_row_existing_target:
  assumes "snd (splitext e file) \<in> FILE_SUFFIX"
      and "target_file_of e cfg root_dir file \<in> paths s"
  shows "process_row e cfg (root_dir, file) s = (s, None)
       \<and> run_rows e cfg ((root_dir, file) # rows) s = run_rows e cfg rows s"
  using assms by (simp add: process_row_skip)

text \<open>
  Claim C10, an instance: \<open>in/a.docx\<close> with \<open>out/./a.docx\<close> in place leaves the state as
  it was.
\<close>

theorem process_row_existing_target_witness:
  "snd (splitext (example_env [str ''a.docx'']) (str ''a.docx'')) \<in> FILE_SUFFIX
   \<and> target_file_of (example_env [str ''a.docx'']) (example_config 0.5 False) (str ''in'')
        (str ''a.docx'')
        \<in> paths (example_state\<lparr>paths := {str ''in'', str ''out/./a.docx''}\<rparr>)
   \<and> process_row (example_env [str ''a.docx'']) (example_config 0.5 False)
        (str ''in'', str ''a.docx'')
        (example_state\<lparr>paths := {str ''in'', str ''out/./a.docx''}\<rparr>)
      = (example_state\<lparr>paths := {str ''in'', str ''out/./a.docx''}\<rparr>, None)"
  using process_row_existing_target
    [of "example_env [str ''a.docx'']" "str ''a.docx''" "example_config 0.5 False" "str ''in''"
      "example_state\<lparr>paths := {str ''in'', str ''out/./a.docx''}\<rparr>" "[]"]
  by (simp add: example_simps)

subsection \<open>Failures while a file is processed\<close>




subsection \<open>The two logs\<close>




subsection \<open>Running twice\<close>

text \<open>
  Claim C5, as amended. Run \<open>move_files\<close> on a valid pair of directories, from a state
  with an empty trace, and run it again with the same arguments on the state the first
  run leaves, the listing of the input tree being the same. Then no target path is
  copied to twice over the two runs, every target the first run copied to exists after
  it, and the second run is the run over those listed files whose target does not
  exist after the first run: a file the first run copied is skipped, with no call, no
  copy and no log line. Log lines are repeated for files
  processed without a copy: a file the model decides against leaves the paths as they
  are and gets its move-log line each time it is processed.
\<close>

theorem move_files_twice:
  assumes valid: "input_dir cfg \<in> paths s0"
                 "abspath e (input_dir cfg) \<noteq> abspath e (output_dir cfg)"
      and fresh: "trace s0 = []"
      and run1: "move_files e cfg s0 = (s1, r1)"
      and run2: "move_files e cfg s1 = (s2, r2)"
      and same: "walk e (insert (output_dir cfg) (paths s1)) (input_dir cfg) =
                 walk e (insert (output_dir cfg) (paths s0)) (input_dir cfg)"
  shows "distinct (copy_targets (trace s2))
       \<and> set (copy_targets (trace s1)) \<subseteq> paths s1
       \<and> (s2, r2) =
           run_rows e cfg
             (filter (\<lambda>(root_dir, file). target_file_of e cfg root_dir file \<notin> paths s1)
                (all_file_of (walk e (insert (output_dir cfg) (paths s0)) (input_dir cfg))))
             (s1\<lparr>positive_probabilities := None\<rparr>)
       \<and> (snd (splitext e file) \<in> FILE_SUFFIX
            \<and> target_file_of e cfg root_dir file \<notin> paths s
            \<and> extract_text e (file_local_of e root_dir file) (snd (splitext e file)) = Inr text
            \<and> detect_language text = Chinese
            \<and> \<not> just_by_file_name cfg \<and> 50 \<le> length text
            \<and> predict_proba e [one_text_pre_process text] = [(q, p)]
            \<and> \<not> p > threshold cfg \<longrightarrow>
          process_row e cfg (root_dir, file) s =
            (s\<lparr>trace := trace s @ [Extract (file_local_of e root_dir file),
                                      Predict (one_text_pre_process text)],
                positive_probabilities := Some [p],
                move_log := move_log s @ [(NpInt 0, p, file_local_of e root_dir file)]\<rparr>, None))"
proof (intro conjI impI)
  have "copies_ok s0" using fresh by (simp add: copies_ok_def)
  then have ok1: "copies_ok s1" using move_files_copies_ok [of s0 e cfg] run1 by simp
  then have "copies_ok s2" using move_files_copies_ok [of s1 e cfg] run2 by simp
  then show "distinct (copy_targets (trace s2))" by (simp add: copies_ok_def)
  from ok1 show "set (copy_targets (trace s1)) \<subseteq> paths s1" by (simp add: copies_ok_def)
next
  have in1: "input_dir cfg \<in> paths s1"
    using move_files_paths [of s0 e cfg] valid(1) run1 by auto
  have out1: "output_dir cfg \<in> paths s1"
    using move_files_output_dir [OF valid] run1 by simp
  then have ins: "insert (output_dir cfg) (paths s1) = paths s1" by auto
  have "(s2, r2) =
      run_rows e cfg (all_file_of (walk e (insert (output_dir cfg) (paths s0)) (input_dir cfg)))
        (s1\<lparr>positive_probabilities := None\<rparr>)"
    using run2 move_files_valid [OF in1 valid(2)] same by (simp add: ins)
  also have "\<dots> = run_rows e cfg
             (filter (\<lambda>(root_dir, file). target_file_of e cfg root_dir file \<notin> paths s1)
                (all_file_of (walk e (insert (output_dir cfg) (paths s0)) (input_dir cfg))))
             (s1\<lparr>positive_probabilities := None\<rparr>)"
    by (rule run_rows_skip) simp
  finally show "(s2, r2) = run_rows e cfg
             (filter (\<lambda>(root_dir, file). target_file_of e cfg root_dir file \<notin> paths s1)
                (all_file_of (walk e (insert (output_dir cfg) (paths s0)) (input_dir cfg))))
             (s1\<lparr>positive_probabilities := None\<rparr>)" .
next
  assume "snd (splitext e file) \<in> FILE_SUFFIX
            \<and> target_file_of e cfg root_dir file \<notin> paths s
            \<and> extract_text e (file_local_of e root_dir file) (snd (splitext e file)) = Inr text
            \<and> detect_language text = Chinese
            \<and> \<not> just_by_file_name cfg \<and> 50 \<le> length text
            \<and> predict_proba e [one_text_pre_process text] = [(q, p)]
            \<and> \<not> p > threshold cfg"
  then show "process_row e cfg (root_dir, file) s =
            (s\<lparr>trace := trace s @ [Extract (file_local_of e root_dir file),
                                      Predict (one_text_pre_process text)],
                positive_probabilities := Some [p],
                move_log := move_log s @ [(NpInt 0, p, file_local_of e root_dir file)]\<rparr>, None)"
    using process_row_model [where q = q and p = p] by (simp add: Let_def)
qed

text \<open>
  Claim C5, an instance, with the threshold at 0.9: the model decides against
  \<open>in/a.docx\<close>, the file name decides for the second document. The first run writes two
  lines and copies the second document. The second run skips the copied document and
  repeats the line of \<open>in/a.docx\<close>; the one copy stays the only one.
\<close>

theorem move_files_twice_witness:
  "move_log (fst (first_run [str ''a.docx'', 35797 # str ''.doc''] (example_config 0.9 False)))
     = [(NpInt 0, 0.9, str ''in/a.docx''), (PyBool True, 0.9, str ''in/'' @ 35797 # str ''.doc'')]
   \<and> move_log (fst (second_run [str ''a.docx'', 35797 # str ''.doc''] (example_config 0.9 False)))
     = [(NpInt 0, 0.9, str ''in/a.docx''), (PyBool True, 0.9, str ''in/'' @ 35797 # str ''.doc''),
        (NpInt 0, 0.9, str ''in/a.docx'')]
   \<and> copy_targets
        (trace (fst (second_run [str ''a.docx'', 35797 # str ''.doc''] (example_config 0.9 False))))
     = [str ''out/./'' @ 35797 # str ''.doc'']
   \<and> distinct (copy_targets
        (trace (fst (second_run [str ''a.docx'', 35797 # str ''.doc''] (example_config 0.9 False)))))"
proof -
  let ?fs = "[str ''a.docx'', 35797 # str ''.doc'']"
  let ?cfg = "example_config 0.9 False"
  have v1: "input_dir ?cfg \<in> paths example_state"
    by (simp add: example_cfg example_state_def)
  have v2: "abspath (example_env ?fs) (input_dir ?cfg) \<noteq> abspath (example_env ?fs) (output_dir ?cfg)"
    by (simp add: example_cfg example_abspath str_simps)
  have v3: "trace example_state = []"
    by (simp add: example_state_def)
  have r1: "move_files (example_env ?fs) ?cfg example_state
              = (fst (first_run ?fs ?cfg), snd (first_run ?fs ?cfg))"
    by (simp add: first_run_def)
  have r2: "move_files (example_env ?fs) ?cfg (fst (first_run ?fs ?cfg))
              = (fst (second_run ?fs ?cfg), snd (second_run ?fs ?cfg))"
    by (simp add: second_run_def)
  have w: "walk (example_env ?fs) (insert (output_dir ?cfg) (paths (fst (first_run ?fs ?cfg))))
             (input_dir ?cfg)
         = walk (example_env ?fs) (insert (output_dir ?cfg) (paths example_state)) (input_dir ?cfg)"
    by (simp add: example_env_def)
  have "distinct (copy_targets (trace (fst (second_run ?fs ?cfg))))"
    using move_files_twice [OF v1 v2 v3 r1 r2 w] by blast
  moreover have "move_log (fst (first_run ?fs ?cfg))
     = [(NpInt 0, 0.9, str ''in/a.docx''), (PyBool True, 0.9, str ''in/'' @ 35797 # str ''.doc'')]"
    by (simp add: run_simps)
  moreover have "move_log (fst (second_run ?fs ?cfg))
     = [(NpInt 0, 0.9, str ''in/a.docx''), (PyBool True, 0.9, str ''in/'' @ 35797 # str ''.doc''),
        (NpInt 0, 0.9, str ''in/a.docx'')]"
    by (simp add: run_simps)
  moreover have "copy_targets (trace (fst (second_run ?fs ?cfg)))
     = [str ''out/./'' @ 35797 # str ''.doc'']"
    by (simp add: run_simps)
  ultimately show ?thesis by simp
qed

text \<open>
  Claim C5 as stated fails: the second run appends no line for a file the first run
  copied. With the threshold at 0.5 the first run copies \<open>in/a.docx\<close> and writes its
  line; the second run skips the file, and the move log still has that one line.
\<close>

theorem move_files_twice_no_new_line:
  "first_run [str ''a.docx''] (example_config 0.5 False)
     = (\<lparr>paths = {str ''out/./a.docx'', str ''out/.'', str ''out'', str ''in''},
         trace = [Extract (str ''in/a.docx''), Predict (one_text_pre_process long_text),
                  Copy (str ''in/a.docx'') (str ''out/./a.docx'')],
         file_name_log = [],
         move_log = [(NpInt 1, 0.9, str ''in/a.docx'')],
         positive_probabilities = Some [0.9]\<rparr>, None)
   \<and> second_run [str ''a.docx''] (example_config 0.5 False)
     = (\<lparr>paths = {str ''out/./a.docx'', str ''out/.'', str ''out'', str ''in''},
         trace = [Extract (str ''in/a.docx''), Predict (one_text_pre_process long_text),
                  Copy (str ''in/a.docx'') (str ''out/./a.docx'')],
         file_name_log = [],
         move_log = [(NpInt 1, 0.9, str ''in/a.docx'')],
         positive_probabilities = None\<rparr>, None)"
  by (simp add: run_simps insert_commute)

section \<open>Properties of the model download\<close>

lemma write_chunks_eq:
  "write_chunks cs (f, n) = (f @ concat cs, n + int (length (concat cs)))"
  by (induction cs arbitrary: f n) simp_all

text \<open>
  When the stream delivers what the header announces, the function does what its
  comments say: one request from the size of the partial file on, the chunks appended
  to it, the file renamed, nothing printed, and the final file as long as announced.
\<close>

lemma download_model_complete:
  assumes "files d model_name = None"
      and "files d (model_name @ str ''.tmp'') = Some old"
      and "requests_get nw download_url (length old) = Inr response"
      and "status_ok response" and "content_range response = Some header"
      and "split header 47 = lead # size_field # others"
      and "int_of_str nw size_field = Inr N"
      and "stream_error response = None"
      and "int (length old) + int (length (concat (chunks response))) = N"
  shows "download_model nw model_name download_url d =
           (d\<lparr>requests := requests d @ [(download_url, length old)],
              files := ((files d)(model_name @ str ''.tmp'' := None))
                         (model_name \<mapsto> old @ concat (chunks response))\<rparr>, None)"
  using assms
  by (auto simp add: download_model_def Let_def write_chunks_eq domIff)

text \<open>
  Claim C6, on the code. A partial file of 2 bytes, an artifact of 6 bytes: the request
  asks for the bytes from 2 on, the server announces 6 bytes and the stream ends after
  two more, without an exception. The function sees that the counter 4 differs from
  the announced 6 and prints its error message, then renames the temporary file all
  the same: the final model file has 4 bytes, not 6, the temporary file is gone, and no
  exception is raised.
\<close>

theorem download_model_cut_off:
  "files (fst (download_model cut_off_net (str ''TextClassifier.pkl'') (str ''url'') partial_disk))
     (str ''TextClassifier.pkl'') = Some [1, 2, 3, 4]
   \<and> files (fst (download_model cut_off_net (str ''TextClassifier.pkl'') (str ''url'') partial_disk))
     (str ''TextClassifier.pkl.tmp'') = None
   \<and> requests (fst (download_model cut_off_net (str ''TextClassifier.pkl'') (str ''url'') partial_disk))
     = [(str ''url'', 2)]
   \<and> stdout (fst (download_model cut_off_net (str ''TextClassifier.pkl'') (str ''url'') partial_disk))
     = [DownloadProblem]
   \<and> snd (download_model cut_off_net (str ''TextClassifier.pkl'') (str ''url'') partial_disk) = None"
  by (simp add: download_model_def cut_off_net_def partial_disk_def digits_int_def split_def
        str_simps Let_def)

end
